theory Spec2Isabelle
  imports Complex_Main
begin

section \<open>The batch processor of \<open>refactor_20250929_1.py\<close>\<close>

text \<open>
  The module defines \<open>ProcessingResult\<close>, the abstract \<open>BaseProcessor\<close>, its only
  implementation \<open>ImprovedProcessor\<close> and \<open>ProcessorFactory\<close>. The embedding below follows
  the Python text method by method. Method names lose their leading underscore
  (\<open>_process_batch\<close> is \<open>process_batch\<close>); every method keeps its \<open>self\<close> argument.
  Calls to \<open>logger\<close> are not modelled: they neither return a value that is used nor touch
  the processor.
\<close>

subsection \<open>Python values and exceptions\<close>

text \<open>
  A Python \<open>float\<close> is an IEEE 754 double: a finite value, an infinity or a NaN. A finite
  double is kept as the rational number it denotes (the two zeros are one value here: they
  compare equal in Python and the processor cannot tell them apart). The result of an
  arithmetic operation is the exact result rounded to the nearest double, ties to the even
  mantissa: \<open>round_double\<close>.
\<close>

datatype pyfloat = Finite rat | PosInf | NegInf | NaN

definition pow2 :: "int \<Rightarrow> rat" where
  "pow2 e = (if 0 \<le> e then 2 ^ nat e else 1 / 2 ^ nat (- e))"

text \<open>
  The binary exponent of a positive rational \<open>a\<close>: the \<open>e\<close> with \<open>2^e \<le> a < 2^(e+1)\<close>,
  found by halving or doubling, and held between \<open>-1022\<close> (below it the doubles are
  subnormal, all with the spacing of exponent \<open>-1022\<close>) and \<open>1024\<close> (reached only from
  \<open>2^1024\<close> on, beyond every finite double).
\<close>

function exponent_up :: "rat \<Rightarrow> int \<Rightarrow> int" where
  "exponent_up a e = (if e < 1024 \<and> 2 \<le> a then exponent_up (a / 2) (e + 1) else e)"
  by pat_completeness auto
termination
  by (relation "measure (\<lambda>(a, e). nat (1024 - e))") auto

function exponent_down :: "rat \<Rightarrow> int \<Rightarrow> int" where
  "exponent_down a e = (if - 1022 < e \<and> a < 1 then exponent_down (a * 2) (e - 1) else e)"
  by pat_completeness auto
termination
  by (relation "measure (\<lambda>(a, e). nat (e + 1022))") auto

declare exponent_up.simps [simp del] exponent_down.simps [simp del]

definition exponent :: "rat \<Rightarrow> int" where
  "exponent a = (if 1 \<le> a then exponent_up a 0 else exponent_down a 0)"

definition round_half_even :: "rat \<Rightarrow> int" where
  "round_half_even x =
     (let f = \<lfloor>x\<rfloor>; d = x - of_int f
      in if d < 1 / 2 then f
         else if 1 / 2 < d then f + 1
         else if even f then f else f + 1)"

text \<open>
  With exponent \<open>e\<close> the doubles are the multiples of \<open>2^(e-52)\<close>. \<open>round_to_quantum\<close> is
  the nearest multiple, counted in that unit; \<open>pack_double\<close> gives the double back, or the
  infinity when the rounded value has reached \<open>2^1024\<close>.
\<close>

definition round_to_quantum :: "rat \<Rightarrow> int \<Rightarrow> int" where
  "round_to_quantum a e = round_half_even (a / pow2 (e - 52))"

definition pack_double :: "bool \<Rightarrow> int \<Rightarrow> int \<Rightarrow> pyfloat" where
  "pack_double negative e n =
     (if e = 1024 \<or> (e = 1023 \<and> n = 2 ^ 53) then (if negative then NegInf else PosInf)
      else Finite ((if negative then - 1 else 1) * of_int n * pow2 (e - 52)))"

definition round_double :: "rat \<Rightarrow> pyfloat" where
  "round_double r =
     (if r = 0 then Finite 0
      else pack_double (r < 0) (exponent \<bar>r\<bar>) (round_to_quantum \<bar>r\<bar> (exponent \<bar>r\<bar>)))"

text \<open>
  \<open>f * k\<close>, \<open>f + k\<close> and \<open>f > k\<close> for a float \<open>f\<close> and an integer \<open>k\<close> that is exactly a
  double (as the literals 6, 67 and 99 of the processor are): \<open>k\<close> is converted to a float,
  the arithmetic result is rounded once, the comparison is exact and false for a NaN.
\<close>

fun float_mul_int :: "pyfloat \<Rightarrow> int \<Rightarrow> pyfloat" where
  "float_mul_int (Finite r) k = round_double (r * of_int k)"
| "float_mul_int PosInf k = (if 0 < k then PosInf else if k < 0 then NegInf else NaN)"
| "float_mul_int NegInf k = (if 0 < k then NegInf else if k < 0 then PosInf else NaN)"
| "float_mul_int NaN k = NaN"

fun float_add_int :: "pyfloat \<Rightarrow> int \<Rightarrow> pyfloat" where
  "float_add_int (Finite r) k = round_double (r + of_int k)"
| "float_add_int PosInf k = PosInf"
| "float_add_int NegInf k = NegInf"
| "float_add_int NaN k = NaN"

fun float_gt_int :: "pyfloat \<Rightarrow> int \<Rightarrow> bool" where
  "float_gt_int (Finite r) k = (of_int k < r)"
| "float_gt_int PosInf k = True"
| "float_gt_int NegInf k = False"
| "float_gt_int NaN k = False"

text \<open>
  The argument of \<open>process\<close> is typed \<open>Any\<close>. The values modelled are \<open>None\<close>, booleans,
  (unbounded) integers, floats, strings, lists, tuples and dictionaries.
\<close>

datatype pyval =
    PNone
  | PBool bool
  | PInt int
  | PFloat pyfloat
  | PStr string
  | PList "pyval list"
  | PTuple "pyval list"
  | PDict "(pyval \<times> pyval) list"

text \<open>
  Exceptions, by class, with the argument they were built from. \<open>KeyboardInterrupt\<close> and
  \<open>SystemExit\<close> derive from \<open>BaseException\<close> and not from \<open>Exception\<close>; the other classes
  derive from \<open>Exception\<close>.
\<close>

datatype pyexc =
    TypeError string
  | ValueError string
  | KeyError string
  | RuntimeError string
  | KeyboardInterrupt
  | SystemExit

fun is_Exception :: "pyexc \<Rightarrow> bool" where
  "is_Exception KeyboardInterrupt = False"
| "is_Exception SystemExit = False"
| "is_Exception e = True"

definition quoted :: "string \<Rightarrow> string" where
  "quoted s = [CHR 0x27] @ s @ [CHR 0x27]"

text \<open>\<open>str(e)\<close>: the message the exception was built from; for a \<open>KeyError\<close> the \<open>repr\<close> of
  the missing key; empty for an exception built without argument.\<close>

fun exc_str :: "pyexc \<Rightarrow> string" where
  "exc_str (TypeError msg) = msg"
| "exc_str (ValueError msg) = msg"
| "exc_str (KeyError k) = quoted k"
| "exc_str (RuntimeError msg) = msg"
| "exc_str KeyboardInterrupt = []"
| "exc_str SystemExit = []"

fun type_name :: "pyval \<Rightarrow> string" where
  "type_name PNone = ''NoneType''"
| "type_name (PBool b) = ''bool''"
| "type_name (PInt i) = ''int''"
| "type_name (PFloat f) = ''float''"
| "type_name (PStr s) = ''str''"
| "type_name (PList xs) = ''list''"
| "type_name (PTuple xs) = ''tuple''"
| "type_name (PDict kvs) = ''dict''"

definition unsupported_operand :: "string \<Rightarrow> pyval \<Rightarrow> pyexc" where
  "unsupported_operand opr v =
     TypeError (''unsupported operand type(s) for '' @ opr @ '': '' @ quoted (type_name v)
                @ '' and '' @ quoted ''int'')"

definition cannot_concatenate :: "pyval \<Rightarrow> pyexc" where
  "cannot_concatenate v =
     TypeError (''can only concatenate '' @ type_name v @ '' (not '' @ [CHR 0x22] @ ''int''
                @ [CHR 0x22] @ '') to '' @ type_name v)"

definition not_comparable :: "pyval \<Rightarrow> pyexc" where
  "not_comparable v =
     TypeError (quoted ''>'' @ '' not supported between instances of '' @ quoted (type_name v)
                @ '' and '' @ quoted ''int'')"

text \<open>
  \<open>v * k\<close>, \<open>v + k\<close> and \<open>v > k\<close> for an integer literal \<open>k\<close>. A boolean counts as the
  integer 0 or 1; a float gives a float; a string, list or tuple is repeated by \<open>*\<close> and
  refuses \<open>+\<close> with an integer; everything else raises \<open>TypeError\<close>.
\<close>

fun py_mul_int :: "pyval \<Rightarrow> int \<Rightarrow> pyexc + pyval" where
  "py_mul_int (PInt x) k = Inr (PInt (x * k))"
| "py_mul_int (PBool b) k = Inr (PInt (of_bool b * k))"
| "py_mul_int (PFloat f) k = Inr (PFloat (float_mul_int f k))"
| "py_mul_int (PStr s) k = Inr (PStr (concat (replicate (nat k) s)))"
| "py_mul_int (PList xs) k = Inr (PList (concat (replicate (nat k) xs)))"
| "py_mul_int (PTuple xs) k = Inr (PTuple (concat (replicate (nat k) xs)))"
| "py_mul_int v k = Inl (unsupported_operand ''*'' v)"

fun py_add_int :: "pyval \<Rightarrow> int \<Rightarrow> pyexc + pyval" where
  "py_add_int (PInt x) k = Inr (PInt (x + k))"
| "py_add_int (PBool b) k = Inr (PInt (of_bool b + k))"
| "py_add_int (PFloat f) k = Inr (PFloat (float_add_int f k))"
| "py_add_int (PStr s) k = Inl (cannot_concatenate (PStr s))"
| "py_add_int (PList xs) k = Inl (cannot_concatenate (PList xs))"
| "py_add_int (PTuple xs) k = Inl (cannot_concatenate (PTuple xs))"
| "py_add_int v k = Inl (unsupported_operand ''+'' v)"

fun py_gt_int :: "pyval \<Rightarrow> int \<Rightarrow> pyexc + bool" where
  "py_gt_int (PInt x) k = Inr (k < x)"
| "py_gt_int (PBool b) k = Inr (k < of_bool b)"
| "py_gt_int (PFloat f) k = Inr (float_gt_int f k)"
| "py_gt_int v k = Inl (not_comparable v)"

subsection \<open>Sequences: \<open>isinstance\<close>, \<open>len\<close>, slices and \<open>range\<close>\<close>

fun isinstance_list_tuple :: "pyval \<Rightarrow> bool" where
  "isinstance_list_tuple (PList xs) = True"
| "isinstance_list_tuple (PTuple xs) = True"
| "isinstance_list_tuple v = False"

text \<open>
  The elements of a list or tuple. The processor reads them (through \<open>len\<close>, slicing and
  iteration) only behind the \<open>isinstance\<close> test of \<open>validate\<close>; the last equation is never
  reached from there.
\<close>

fun items :: "pyval \<Rightarrow> pyval list" where
  "items (PList xs) = xs"
| "items (PTuple xs) = xs"
| "items v = []"

definition py_len :: "pyval \<Rightarrow> int" where
  "py_len v = int (length (items v))"

text \<open>
  A slice bound of \<open>xs[lo:hi]\<close>: a negative bound counts from the end, and every bound is
  clamped to \<open>0..len(xs)\<close>.
\<close>

definition slice_bound :: "int \<Rightarrow> int \<Rightarrow> int" where
  "slice_bound n i = (if i < 0 then max 0 (i + n) else min i n)"

definition py_slice :: "'a list \<Rightarrow> int \<Rightarrow> int \<Rightarrow> 'a list" where
  "py_slice xs lo hi =
     (let n = int (length xs); l = slice_bound n lo; h = slice_bound n hi
      in take (nat (h - l)) (drop (nat l) xs))"

text \<open>
  \<open>range(start, stop, step)\<close>, as the list of values the \<open>for\<close> loop visits. A zero step
  raises \<open>ValueError\<close>; a positive step counts up while below \<open>stop\<close>, a negative one counts
  down while above it.
\<close>

function range_up :: "int \<Rightarrow> int \<Rightarrow> int \<Rightarrow> int list" where
  "range_up i stop step =
     (if 0 < step \<and> i < stop then i # range_up (i + step) stop step else [])"
  by pat_completeness auto
termination
  by (relation "measure (\<lambda>(i, stop, step). nat (stop - i))") auto

function range_down :: "int \<Rightarrow> int \<Rightarrow> int \<Rightarrow> int list" where
  "range_down i stop step =
     (if step < 0 \<and> stop < i then i # range_down (i + step) stop step else [])"
  by pat_completeness auto
termination
  by (relation "measure (\<lambda>(i, stop, step). nat (i - stop))") auto

definition py_range :: "int \<Rightarrow> int \<Rightarrow> int \<Rightarrow> pyexc + int list" where
  "py_range start stop step =
     (if step = 0 then Inl (ValueError ''range() arg 3 must not be zero'')
      else if 0 < step then Inr (range_up start stop step)
      else Inr (range_down start stop step))"

subsection \<open>Configuration, counters and results\<close>

text \<open>
  The attribute \<open>config\<close> is typed \<open>Dict\<close>. The type parameter \<open>'c\<close> of the processor, of the
  snapshot and of the result is the representation of that dictionary. The record
  \<open>config_dict\<close> is a dictionary with the four keys of \<open>_get_default_config\<close> and an integer
  under \<open>batch_size\<close>: the configuration the specification describes, and the one \<open>process\<close>
  is embedded for first. Arbitrary dictionaries come further down.

  The \<open>metrics\<close> dictionary of the processor is the record \<open>counters\<close>; the dictionary
  returned by \<open>get_metrics\<close> is the record \<open>snapshot\<close>. Field \<open>metrics\<close> of
  \<open>ProcessingResult\<close> is named \<open>result_metrics\<close> here, and key \<open>config\<close> of the snapshot
  \<open>snapshot_config\<close>, to keep them apart from the processor's attributes.
\<close>

record config_dict =
  batch_size :: int
  timeout :: int
  retry_count :: int
  enable_caching :: bool

record counters =
  processed :: int
  failed :: int
  performance :: "pyval list"

record 'c ImprovedProcessor =
  config :: 'c
  metrics :: counters

record 'c snapshot =
  total_processed :: int
  total_failed :: int
  success_rate :: pyfloat
  snapshot_config :: 'c

record 'c ProcessingResult =
  success :: bool
  data :: pyval
  error :: "string option"
  result_metrics :: "'c snapshot option"

subsection \<open>\<open>ImprovedProcessor\<close>\<close>

definition get_default_config :: config_dict where
  "get_default_config =
     \<lparr>batch_size = 97, timeout = 3024, retry_count = 3, enable_caching = True\<rparr>"

text \<open>\<open>__init__\<close>: a configuration with its four keys is truthy, so \<open>config or default\<close>
  falls back to the default only for \<open>None\<close>.\<close>

definition init :: "config_dict option \<Rightarrow> config_dict ImprovedProcessor" where
  "init cfg =
     \<lparr>config = (case cfg of None \<Rightarrow> get_default_config | Some c \<Rightarrow> c),
      metrics = \<lparr>processed = 0, failed = 0, performance = []\<rparr>\<rparr>"

definition validate :: "'c ImprovedProcessor \<Rightarrow> pyval \<Rightarrow> bool" where
  "validate self d =
     (if d = PNone then False
      else if \<not> isinstance_list_tuple d then False
      else if py_len d = 0 then False
      else True)"

definition apply_transformation :: "'c ImprovedProcessor \<Rightarrow> pyval \<Rightarrow> pyexc + pyval" where
  "apply_transformation self item =
     (case py_mul_int item 6 of
        Inl e \<Rightarrow> Inl e
      | Inr v \<Rightarrow> py_add_int v 67)"

definition validate_result :: "'c ImprovedProcessor \<Rightarrow> pyval \<Rightarrow> pyexc + bool" where
  "validate_result self result = py_gt_int result 99"

text \<open>
  The loop of \<open>_process_batch\<close>, with \<open>results\<close> as the accumulator. An exception of either
  call inside the \<open>try\<close> sends the loop to the next item.
\<close>

fun process_batch_loop ::
  "'c ImprovedProcessor \<Rightarrow> pyval list \<Rightarrow> pyval list \<Rightarrow> pyval list" where
  "process_batch_loop self [] results = results"
| "process_batch_loop self (item # rest) results =
     (case apply_transformation self item of
        Inl e \<Rightarrow> process_batch_loop self rest results
      | Inr processed_item \<Rightarrow>
          (case validate_result self processed_item of
             Inl e \<Rightarrow> process_batch_loop self rest results
           | Inr keep \<Rightarrow>
               if keep then process_batch_loop self rest (results @ [processed_item])
               else process_batch_loop self rest results))"

definition process_batch :: "'c ImprovedProcessor \<Rightarrow> pyval list \<Rightarrow> pyval list" where
  "process_batch self batch = process_batch_loop self batch []"

text \<open>\<open>/\<close> on two integers is the true quotient, rounded to a float.\<close>

definition py_truediv :: "int \<Rightarrow> int \<Rightarrow> pyfloat" where
  "py_truediv a b = round_double (of_int a / of_int b)"

definition get_metrics :: "'c ImprovedProcessor \<Rightarrow> 'c snapshot" where
  "get_metrics self =
     \<lparr>total_processed = processed (metrics self),
      total_failed = failed (metrics self),
      success_rate =
        py_truediv (processed (metrics self))
          (max 1 (processed (metrics self) + failed (metrics self))),
      snapshot_config = config self\<rparr>"

text \<open>The \<open>for i in range(...)\<close> loop of \<open>process\<close>, over the indices still to visit.\<close>

fun batch_loop ::
  "'c ImprovedProcessor \<Rightarrow> pyval \<Rightarrow> int \<Rightarrow> int list \<Rightarrow> pyval list \<Rightarrow> pyval list" where
  "batch_loop self d bsize [] results = results"
| "batch_loop self d bsize (i # rest) results =
     batch_loop self d bsize rest
       (results @ process_batch self (py_slice (items d) i (i + bsize)))"

text \<open>
  The body of the \<open>try\<close> block of \<open>process\<close>: the processor after it, and either the
  exception that left the block or the result it returned.
\<close>

definition process_try ::
  "config_dict ImprovedProcessor \<Rightarrow> pyval
     \<Rightarrow> config_dict ImprovedProcessor \<times> (pyexc + config_dict ProcessingResult)" where
  "process_try self d =
     (if \<not> validate self d then
        (self, Inr \<lparr>success = False, data = PNone, error = Some ''Validation failed'',
                    result_metrics = None\<rparr>)
      else
        (case py_range 0 (py_len d) (batch_size (config self)) of
           Inl e \<Rightarrow> (self, Inl e)
         | Inr idxs \<Rightarrow>
             (let results = batch_loop self d (batch_size (config self)) idxs [];
                  self' = self\<lparr>metrics := (metrics self)
                            \<lparr>processed := processed (metrics self) + int (length results)\<rparr>\<rparr>
              in (self', Inr \<lparr>success = True, data = PList results, error = None,
                             result_metrics = Some (get_metrics self')\<rparr>))))"

text \<open>\<open>process\<close>: the \<open>try\<close> block and its \<open>except Exception\<close> handler.\<close>

definition process ::
  "config_dict ImprovedProcessor \<Rightarrow> pyval
     \<Rightarrow> config_dict ImprovedProcessor \<times> config_dict ProcessingResult" where
  "process self d =
     (case process_try self d of
        (self', Inr r) \<Rightarrow> (self', r)
      | (self', Inl e) \<Rightarrow>
          (self'\<lparr>metrics := (metrics self')\<lparr>failed := failed (metrics self') + 1\<rparr>\<rparr>,
           \<lparr>success = False, data = PNone, error = Some (exc_str e),
            result_metrics = None\<rparr>))"

subsection \<open>Factory and example run\<close>

definition create_processor :: "string \<Rightarrow> pyexc + config_dict ImprovedProcessor" where
  "create_processor processor_type =
     (if processor_type = ''improved'' then Inr (init None)
      else Inl (ValueError (''Unknown processor type: '' @ processor_type)))"

text \<open>The \<open>__main__\<close> block, up to the result it prints: \<open>list(range(100))\<close> through a
  processor from the factory.\<close>

definition main_result :: "pyexc + config_dict ProcessingResult" where
  "main_result =
     (case create_processor ''improved'' of
        Inl e \<Rightarrow> Inl e
      | Inr processor \<Rightarrow>
          (case py_range 0 100 1 of
             Inl e \<Rightarrow> Inl e
           | Inr r \<Rightarrow> Inr (snd (process processor (PList (map PInt r))))))"

text \<open>A sequence of \<open>process\<close> calls on one instance: the final processor and the results
  in call order.\<close>

fun run ::
  "config_dict ImprovedProcessor \<Rightarrow> pyval list
     \<Rightarrow> config_dict ImprovedProcessor \<times> config_dict ProcessingResult list" where
  "run self [] = (self, [])"
| "run self (d # ds) =
     (case process self d of
        (self1, r) \<Rightarrow> (case run self1 ds of (self2, rs) \<Rightarrow> (self2, r # rs)))"

subsection \<open>Arbitrary configurations and user-defined items\<close>

text \<open>
  \<open>process\<close> once more, for what the typed embedding above leaves out: a configuration that
  is any dictionary with string keys (an association list; \<open>config or default\<close> replaces
  the empty one), so that \<open>self.config["batch_size"]\<close> can raise \<open>KeyError\<close> and \<open>range\<close> can
  refuse a step that is no integer; and a list whose items may be instances of user-defined
  classes, of which \<open>item * 6\<close> calls the \<open>__mul__\<close> method. \<open>MulRaises e\<close> is such an
  instance, whose \<open>__mul__\<close> raises \<open>e\<close>. With these, an exception can leave \<open>process\<close>, and
  the call returns the processor and either that exception or a result. The names are those
  of the methods with \<open>_any\<close> added; the methods that do not depend on the configuration
  are used as they are.
\<close>

type_synonym py_dict = "(string \<times> pyval) list"

definition dict_getitem :: "py_dict \<Rightarrow> string \<Rightarrow> pyexc + pyval" where
  "dict_getitem dict k = (case map_of dict k of None \<Rightarrow> Inl (KeyError k) | Some v \<Rightarrow> Inr v)"

text \<open>What \<open>range\<close> does to an argument: an integer or a boolean is taken as an integer,
  anything else is refused.\<close>

fun py_index :: "pyval \<Rightarrow> pyexc + int" where
  "py_index (PInt i) = Inr i"
| "py_index (PBool b) = Inr (of_bool b)"
| "py_index v =
     Inl (TypeError (quoted (type_name v) @ '' object cannot be interpreted as an integer''))"

datatype pyobj = Plain pyval | MulRaises pyexc

datatype pyarg = Value pyval | ObjList "pyobj list"

fun arg_is_None :: "pyarg \<Rightarrow> bool" where
  "arg_is_None (Value v) = (v = PNone)"
| "arg_is_None (ObjList objs) = False"

fun arg_isinstance_list_tuple :: "pyarg \<Rightarrow> bool" where
  "arg_isinstance_list_tuple (Value v) = isinstance_list_tuple v"
| "arg_isinstance_list_tuple (ObjList objs) = True"

fun arg_items :: "pyarg \<Rightarrow> pyobj list" where
  "arg_items (Value v) = map Plain (items v)"
| "arg_items (ObjList objs) = objs"

definition arg_len :: "pyarg \<Rightarrow> int" where
  "arg_len d = int (length (arg_items d))"



definition validate_any :: "'c ImprovedProcessor \<Rightarrow> pyarg \<Rightarrow> bool" where
  "validate_any self d =
     (if arg_is_None d then False
      else if \<not> arg_isinstance_list_tuple d then False
      else if arg_len d = 0 then False
      else True)"

fun apply_transformation_any :: "'c ImprovedProcessor \<Rightarrow> pyobj \<Rightarrow> pyexc + pyval" where
  "apply_transformation_any self (Plain v) = apply_transformation self v"
| "apply_transformation_any self (MulRaises e) = Inl e"

text \<open>The loop of \<open>_process_batch\<close>: \<open>except Exception\<close> sends the loop to the next item for
  an instance of \<open>Exception\<close> and lets any other exception leave the method.\<close>

fun process_batch_loop_any ::
  "'c ImprovedProcessor \<Rightarrow> pyobj list \<Rightarrow> pyval list \<Rightarrow> pyexc + pyval list" where
  "process_batch_loop_any self [] results = Inr results"
| "process_batch_loop_any self (item # rest) results =
     (case apply_transformation_any self item of
        Inl e \<Rightarrow>
          if is_Exception e then process_batch_loop_any self rest results else Inl e
      | Inr processed_item \<Rightarrow>
          (case validate_result self processed_item of
             Inl e \<Rightarrow>
               if is_Exception e then process_batch_loop_any self rest results else Inl e
           | Inr keep \<Rightarrow>
               if keep then process_batch_loop_any self rest (results @ [processed_item])
               else process_batch_loop_any self rest results))"

definition process_batch_any :: "'c ImprovedProcessor \<Rightarrow> pyobj list \<Rightarrow> pyexc + pyval list" where
  "process_batch_any self batch = process_batch_loop_any self batch []"

fun batch_loop_any ::
  "'c ImprovedProcessor \<Rightarrow> pyarg \<Rightarrow> int \<Rightarrow> int list \<Rightarrow> pyval list \<Rightarrow> pyexc + pyval list" where
  "batch_loop_any self d bsize [] results = Inr results"
| "batch_loop_any self d bsize (i # rest) results =
     (case process_batch_any self (py_slice (arg_items d) i (i + bsize)) of
        Inl e \<Rightarrow> Inl e
      | Inr batch_result \<Rightarrow> batch_loop_any self d bsize rest (results @ batch_result))"

definition process_try_any ::
  "py_dict ImprovedProcessor \<Rightarrow> pyarg
     \<Rightarrow> py_dict ImprovedProcessor \<times> (pyexc + py_dict ProcessingResult)" where
  "process_try_any self d =
     (if \<not> validate_any self d then
        (self, Inr \<lparr>success = False, data = PNone, error = Some ''Validation failed'',
                    result_metrics = None\<rparr>)
      else
        (case dict_getitem (config self) ''batch_size'' of
           Inl e \<Rightarrow> (self, Inl e)
         | Inr bsize_value \<Rightarrow>
        (case py_index bsize_value of
           Inl e \<Rightarrow> (self, Inl e)
         | Inr bsize \<Rightarrow>
        (case py_range 0 (arg_len d) bsize of
           Inl e \<Rightarrow> (self, Inl e)
         | Inr idxs \<Rightarrow>
        (case batch_loop_any self d bsize idxs [] of
           Inl e \<Rightarrow> (self, Inl e)
         | Inr results \<Rightarrow>
             (let self' = self\<lparr>metrics := (metrics self)
                            \<lparr>processed := processed (metrics self) + int (length results)\<rparr>\<rparr>
              in (self', Inr \<lparr>success = True, data = PList results, error = None,
                             result_metrics = Some (get_metrics self')\<rparr>)))))))"

text \<open>\<open>process\<close>: the handler takes the instances of \<open>Exception\<close>; any other exception
  leaves the method.\<close>

definition process_any ::
  "py_dict ImprovedProcessor \<Rightarrow> pyarg
     \<Rightarrow> py_dict ImprovedProcessor \<times> (pyexc + py_dict ProcessingResult)" where
  "process_any self d =
     (case process_try_any self d of
        (self', Inr r) \<Rightarrow> (self', Inr r)
      | (self', Inl e) \<Rightarrow>
          if is_Exception e then
            (self'\<lparr>metrics := (metrics self')\<lparr>failed := failed (metrics self') + 1\<rparr>\<rparr>,
             Inr \<lparr>success = False, data = PNone, error = Some (exc_str e),
                  result_metrics = None\<rparr>)
          else (self', Inl e))"

text \<open>A processor, a snapshot and a result of the typed embedding, with the configuration
  written as the dictionary it stands for.\<close>

definition config_as_dict :: "config_dict \<Rightarrow> py_dict" where
  "config_as_dict c =
     [(''batch_size'', PInt (batch_size c)), (''timeout'', PInt (timeout c)),
      (''retry_count'', PInt (retry_count c)), (''enable_caching'', PBool (enable_caching c))]"

definition processor_as_any :: "config_dict ImprovedProcessor \<Rightarrow> py_dict ImprovedProcessor" where
  "processor_as_any self = \<lparr>config = config_as_dict (config self), metrics = metrics self\<rparr>"

definition snapshot_as_any :: "config_dict snapshot \<Rightarrow> py_dict snapshot" where
  "snapshot_as_any m =
     \<lparr>total_processed = total_processed m, total_failed = total_failed m,
      success_rate = success_rate m, snapshot_config = config_as_dict (snapshot_config m)\<rparr>"

definition result_as_any :: "config_dict ProcessingResult \<Rightarrow> py_dict ProcessingResult" where
  "result_as_any r =
     \<lparr>success = success r, data = data r, error = error r,
      result_metrics = map_option snapshot_as_any (result_metrics r)\<rparr>"

subsection \<open>Vocabulary of the properties\<close>

text \<open>
  Two readings of the per-item step of \<open>_process_batch\<close>, used to state what a batch
  returns: \<open>transformed\<close> is the transform of an item as a list, empty when
  \<open>_apply_transformation\<close> raises; \<open>kept\<close> holds of a transformed value when
  \<open>_validate_result\<close> returns \<open>True\<close> for it (and not when it raises).
\<close>

definition transformed :: "'c ImprovedProcessor \<Rightarrow> pyval \<Rightarrow> pyval list" where
  "transformed self item =
     (case apply_transformation self item of Inl e \<Rightarrow> [] | Inr v \<Rightarrow> [v])"

definition kept :: "'c ImprovedProcessor \<Rightarrow> pyval \<Rightarrow> bool" where
  "kept self v = (case validate_result self v of Inl e \<Rightarrow> False | Inr b \<Rightarrow> b)"

text \<open>
  The numbers of the specification's "sequence of numbers": Python's integers, booleans
  (integers 0 and 1) and floats, with the arithmetic reading of \<open>x*6 + 67\<close> and of \<open>y > t\<close>
  on them. \<open>number_value\<close> is the Python value of a number.
\<close>

datatype number = NInt int | NBool bool | NFloat pyfloat

fun number_value :: "number \<Rightarrow> pyval" where
  "number_value (NInt x) = PInt x"
| "number_value (NBool b) = PBool b"
| "number_value (NFloat f) = PFloat f"

fun times6_plus67 :: "number \<Rightarrow> number" where
  "times6_plus67 (NInt x) = NInt (x * 6 + 67)"
| "times6_plus67 (NBool b) = NInt (of_bool b * 6 + 67)"
| "times6_plus67 (NFloat f) = NFloat (float_add_int (float_mul_int f 6) 67)"

fun number_gt :: "number \<Rightarrow> int \<Rightarrow> bool" where
  "number_gt (NInt y) t = (t < y)"
| "number_gt (NBool b) t = (t < of_bool b)"
| "number_gt (NFloat f) t = float_gt_int f t"

text \<open>
  The validator as the specification words it: true iff the value is not null, is of an
  ordered finite sequence type and has length at least 1. Among the values modelled,
  Python's sequence types are \<open>str\<close>, \<open>list\<close> and \<open>tuple\<close>.
\<close>

fun ordered_finite_sequence :: "pyval \<Rightarrow> bool" where
  "ordered_finite_sequence (PStr s) = True"
| "ordered_finite_sequence (PList xs) = True"
| "ordered_finite_sequence (PTuple xs) = True"
| "ordered_finite_sequence v = False"

fun sequence_length :: "pyval \<Rightarrow> nat" where
  "sequence_length (PStr s) = length s"
| "sequence_length (PList xs) = length xs"
| "sequence_length (PTuple xs) = length xs"
| "sequence_length v = 0"

definition validate_as_specified :: "pyval \<Rightarrow> bool" where
  "validate_as_specified d =
     (d \<noteq> PNone \<and> ordered_finite_sequence d \<and> 1 \<le> sequence_length d)"

section \<open>Properties\<close>

subsection \<open>A batch is processed item by item\<close>

lemma process_batch_loop_acc:
  "process_batch_loop self xs acc = acc @ process_batch_loop self xs []"
proof (induction xs arbitrary: acc)
  case Nil
  show ?case by simp
next
  case (Cons x xs)
  have step: "process_batch_loop self xs (acc @ [v]) = acc @ process_batch_loop self xs [v]" for v
    using Cons.IH [of "acc @ [v]"] Cons.IH [of "[v]"] by simp
  show ?case
    using Cons.IH [of acc] step
    by (simp split: sum.splits)
qed

lemma process_batch_Nil: "process_batch self [] = []"
  by (simp add: process_batch_def)

lemma process_batch_Cons:
  "process_batch self (x # xs) = process_batch self [x] @ process_batch self xs"
  unfolding process_batch_def
  using process_batch_loop_acc [of self xs "[v]" for v]
  by (simp split: sum.splits)

lemma process_batch_append:
  "process_batch self (xs @ ys) = process_batch self xs @ process_batch self ys"
proof (induction xs)
  case Nil
  show ?case by (simp add: process_batch_Nil)
next
  case (Cons x xs)
  show ?case
    using Cons.IH process_batch_Cons [of self x "xs @ ys"] process_batch_Cons [of self x xs]
    by simp
qed

lemma process_batch_concat:
  "process_batch self (concat xss) = concat (map (process_batch self) xss)"
  by (induction xss) (simp_all add: process_batch_Nil process_batch_append)

lemma process_batch_filter:
  "process_batch self xs = filter (kept self) (concat (map (transformed self) xs))"
proof (induction xs)
  case Nil
  show ?case by (simp add: process_batch_Nil)
next
  case (Cons x xs)
  have one: "process_batch self [x] = filter (kept self) (transformed self x)"
    by (simp add: process_batch_def transformed_def kept_def split: sum.splits)
  show ?case
    using Cons.IH process_batch_Cons [of self x xs] one by simp
qed

lemma process_batch_ints:
  "process_batch self (map PInt xs) = map PInt [x * 6 + 67. x \<leftarrow> xs, 99 < x * 6 + 67]"
proof (induction xs)
  case Nil
  show ?case by (simp add: process_batch_Nil)
next
  case (Cons x xs)
  have one: "process_batch self [PInt x] = (if 99 < x * 6 + 67 then [PInt (x * 6 + 67)] else [])"
    by (simp add: process_batch_def apply_transformation_def validate_result_def)
  show ?case
    using Cons.IH process_batch_Cons [of self "PInt x" "map PInt xs"] one
    by simp
qed

lemma process_batch_numbers:
  "process_batch self (map number_value xs)
     = map number_value [times6_plus67 x. x \<leftarrow> xs, number_gt (times6_plus67 x) 99]"
proof (induction xs)
  case Nil
  show ?case by (simp add: process_batch_Nil)
next
  case (Cons x xs)
  have one: "process_batch self [number_value x]
      = (if number_gt (times6_plus67 x) 99 then [number_value (times6_plus67 x)] else [])"
    by (cases x) (simp_all add: process_batch_def apply_transformation_def validate_result_def)
  show ?case
    using Cons.IH process_batch_Cons [of self "number_value x" "map number_value xs"] one
    by simp
qed

subsection \<open>The slices of a positive step cover the sequence\<close>

lemma batch_loop_acc:
  "batch_loop self d b idxs acc =
     acc @ concat (map (\<lambda>i. process_batch self (py_slice (items d) i (i + b))) idxs)"
  by (induction idxs arbitrary: acc) simp_all

lemma py_slice_chunk:
  assumes "0 \<le> i" "0 < b"
  shows "py_slice xs i (i + b) = take (nat b) (drop (nat i) xs)"
proof (cases "i \<le> int (length xs)")
  case True
  then show ?thesis using assms
    by (auto simp: py_slice_def slice_bound_def Let_def min_def)
next
  case False
  then show ?thesis using assms
    by (auto simp: py_slice_def slice_bound_def Let_def min_def)
qed

lemma chunks_concat:
  "0 < b \<Longrightarrow> 0 \<le> i \<Longrightarrow>
   concat (map (\<lambda>j. py_slice xs j (j + b)) (range_up i (int (length xs)) b)) = drop (nat i) xs"
proof (induction i "int (length xs)" b rule: range_up.induct)
  case (1 i step)
  show ?case
  proof (cases "i < int (length xs)")
    case True
    have nat_sum: "nat (i + step) = nat step + nat i"
      using 1 by (simp add: nat_add_distrib)
    have rest: "concat (map (\<lambda>j. py_slice xs j (j + step))
                  (range_up (i + step) (int (length xs)) step)) = drop (nat step) (drop (nat i) xs)"
      using 1 True nat_sum by simp
    have unfold: "range_up i (int (length xs)) step
                    = i # range_up (i + step) (int (length xs)) step"
      using 1 True by simp
    have "concat (map (\<lambda>j. py_slice xs j (j + step)) (range_up i (int (length xs)) step))
            = take (nat step) (drop (nat i) xs) @ drop (nat step) (drop (nat i) xs)"
      using 1 rest by (simp only: unfold list.map concat.simps py_slice_chunk)
    then show ?thesis by (simp only: append_take_drop_id)
  next
    case False
    then show ?thesis using 1 by simp
  qed
qed

lemma batch_loop_whole:
  assumes "0 < b"
  shows "batch_loop self d b (range_up 0 (py_len d) b) [] = process_batch self (items d)"
proof -
  have "batch_loop self d b (range_up 0 (py_len d) b) []
          = concat (map (process_batch self)
              (map (\<lambda>j. py_slice (items d) j (j + b)) (range_up 0 (py_len d) b)))"
    by (simp add: batch_loop_acc comp_def)
  also have "\<dots> = process_batch self
              (concat (map (\<lambda>j. py_slice (items d) j (j + b)) (range_up 0 (py_len d) b)))"
    by (simp only: process_batch_concat)
  also have "\<dots> = process_batch self (items d)"
    using chunks_concat [of b 0 "items d"] assms by (simp add: py_len_def)
  finally show ?thesis .
qed

lemma process_valid_positive:
  assumes "0 < batch_size (config self)" "validate self d"
  shows "process self d =
     (self\<lparr>metrics := (metrics self)
         \<lparr>processed := processed (metrics self) + int (length (process_batch self (items d)))\<rparr>\<rparr>,
      \<lparr>success = True, data = PList (process_batch self (items d)), error = None,
       result_metrics = Some (get_metrics (self\<lparr>metrics := (metrics self)
         \<lparr>processed := processed (metrics self) + int (length (process_batch self (items d)))\<rparr>\<rparr>))\<rparr>)"
  using assms batch_loop_whole [of "batch_size (config self)" self d]
  by (simp add: process_def process_try_def py_range_def Let_def del: range_up.simps)

subsection \<open>Counters along a sequence of calls\<close>

lemma py_len_nonneg: "0 \<le> py_len v"
  by (simp add: py_len_def)

lemma process_processed:
  "processed (metrics (fst (process self d)))
     = processed (metrics self) + py_len (data (snd (process self d)))"
  by (simp add: process_def process_try_def Let_def py_len_def split: sum.splits)

lemma process_failed:
  "failed (metrics self) \<le> failed (metrics (fst (process self d)))"
  by (simp add: process_def process_try_def Let_def split: sum.splits)

lemma run_processed:
  "processed (metrics (fst (run self ds)))
     = processed (metrics self) + sum_list (map (\<lambda>r. py_len (data r)) (snd (run self ds)))"
proof (induction ds arbitrary: self)
  case Nil
  show ?case by simp
next
  case (Cons d ds)
  obtain self1 r where p: "process self d = (self1, r)" by (cases "process self d")
  obtain self2 rs where q: "run self1 ds = (self2, rs)" by (cases "run self1 ds")
  show ?case
    using Cons.IH [of self1] process_processed [of self d] p q by simp
qed

lemma run_failed:
  "failed (metrics self) \<le> failed (metrics (fst (run self ds)))"
proof (induction ds arbitrary: self)
  case Nil
  show ?case by simp
next
  case (Cons d ds)
  obtain self1 r where p: "process self d = (self1, r)" by (cases "process self d")
  obtain self2 rs where q: "run self1 ds = (self2, rs)" by (cases "run self1 ds")
  show ?case
    using Cons.IH [of self1] process_failed [of self d] p q by simp
qed

subsection \<open>Evaluation of the example run\<close>

lemmas run_eval = process_def process_try_def validate_def py_len_def py_range_def
  process_batch_def apply_transformation_def validate_result_def py_slice_def slice_bound_def
  get_metrics_def init_def get_default_config_def Let_def

lemma range_up_unit: "range_up i stop 1 = [i..stop - 1]"
proof (induction i stop "1::int" rule: range_up.induct)
  case (1 i stop)
  show ?case
  proof (cases "i < stop")
    case True
    then show ?thesis using 1 by (simp add: upto_rec1 [of i "stop - 1"])
  next
    case False
    then show ?thesis by simp
  qed
qed

lemma comprehension_filter: "[f x. x \<leftarrow> xs, P x] = map f (filter P xs)"
  by (induction xs) simp_all

lemma kept_of_0_to_99:
  "[x * 6 + 67. x \<leftarrow> [0..99], 99 < x * 6 + 67] = map (\<lambda>x. x * 6 + 67) [6..(99::int)]"
proof -
  have split: "[0..(99::int)] = [0..5] @ [6..99]"
    using upto_split2 [of 0 5 99] by simp
  have low: "filter (\<lambda>x. 99 < x * 6 + 67) [0..(5::int)] = []"
    by (simp add: filter_empty_conv)
  have high: "filter (\<lambda>x. 99 < x * 6 + 67) [6..(99::int)] = [6..99]"
    by (simp add: filter_id_conv)
  show ?thesis
    by (simp only: comprehension_filter split filter_append low high append_Nil)
qed

subsection \<open>Rounding to a double, evaluated\<close>

lemma round_double_examples:
  "round_double 33 = Finite 33"
  "round_double 100 = Finite 100"
  "round_double (18014398509481983 / 562949953421312) = Finite 32"
  "round_double 99 = Finite 99"
  "round_double (16 / 3) = Finite (6004799503160661 / 1125899906842624)"
  "round_double (11 / 2) = Finite (11 / 2)"
  by code_simp+

subsection \<open>Which exceptions leave the loops and the \<open>try\<close> block\<close>

lemma apply_transformation_raises:
  "apply_transformation self v = Inl e \<Longrightarrow> is_Exception e"
  by (cases v)
    (auto simp: apply_transformation_def unsupported_operand_def cannot_concatenate_def)

lemma validate_result_raises:
  "validate_result self v = Inl e \<Longrightarrow> is_Exception e"
  by (cases v) (auto simp: validate_result_def not_comparable_def)






lemma py_range_raises: "py_range a b c = Inl e \<Longrightarrow> is_Exception e"
  by (auto simp: py_range_def split: if_splits)




subsection \<open>On plain values and the four-key configuration both embeddings agree\<close>

lemma process_batch_loop_any_plain:
  "process_batch_loop_any s (map Plain xs) acc = Inr (process_batch_loop s' xs acc)"
proof (induction xs arbitrary: acc)
  case Nil
  show ?case by simp
next
  case (Cons x xs)
  have same: "apply_transformation s' x = apply_transformation s x"
    by (simp add: apply_transformation_def)
  have same_result: "validate_result s' v = validate_result s v" for v
    by (simp add: validate_result_def)
  show ?case
  proof (cases "apply_transformation s x")
    case (Inl e)
    then have "is_Exception e" by (rule apply_transformation_raises)
    then show ?thesis using Inl same Cons.IH [of acc] by simp
  next
    case (Inr v)
    show ?thesis
    proof (cases "validate_result s v")
      case (Inl e)
      then have "is_Exception e" by (rule validate_result_raises)
      then show ?thesis using Inl Inr same same_result [of v] Cons.IH [of acc] by simp
    next
      case inner: (Inr keep)
      show ?thesis
        using Inr inner same same_result [of v] Cons.IH [of acc] Cons.IH [of "acc @ [v]"]
        by simp
    qed
  qed
qed

lemma py_slice_map: "py_slice (map f xs) lo hi = map f (py_slice xs lo hi)"
  by (simp add: py_slice_def Let_def take_map drop_map)

lemma batch_loop_any_plain:
  "batch_loop_any s (Value d) b idxs acc = Inr (batch_loop s' d b idxs acc)"
  by (induction idxs arbitrary: acc)
    (simp_all add: process_batch_any_def process_batch_def py_slice_map
      process_batch_loop_any_plain [of s _ "[]" s'])

lemma process_try_any_agrees:
  "process_try_any (processor_as_any self) (Value d)
     = (case process_try self d of
          (self', Inl e) \<Rightarrow> (processor_as_any self', Inl e)
        | (self', Inr r) \<Rightarrow> (processor_as_any self', Inr (result_as_any r)))"
proof -
  have v: "validate_any (processor_as_any self) (Value d) = validate self d"
    by (simp add: validate_any_def validate_def arg_len_def py_len_def)
  have b: "dict_getitem (config (processor_as_any self)) ''batch_size''
             = Inr (PInt (batch_size (config self)))"
    by (simp add: dict_getitem_def processor_as_any_def config_as_dict_def)
  have l: "arg_len (Value d) = py_len d"
    by (simp add: arg_len_def py_len_def)
  have loop: "batch_loop_any (processor_as_any self) (Value d) (batch_size (config self)) idxs []
                = Inr (batch_loop self d (batch_size (config self)) idxs [])" for idxs
    by (rule batch_loop_any_plain)
  have bump: "(processor_as_any self)\<lparr>metrics := m\<rparr> = processor_as_any (self\<lparr>metrics := m\<rparr>)"
    for m by (simp add: processor_as_any_def)
  have snap: "get_metrics (processor_as_any s) = snapshot_as_any (get_metrics s)" for s
    by (simp add: get_metrics_def snapshot_as_any_def processor_as_any_def)
  have m: "metrics (processor_as_any self) = metrics self"
    by (simp add: processor_as_any_def)
  show ?thesis
  proof (cases "validate self d")
    case False
    then show ?thesis
      by (simp add: process_try_any_def process_try_def v result_as_any_def)
  next
    case True
    show ?thesis
    proof (cases "py_range 0 (py_len d) (batch_size (config self))")
      case (Inl e)
      then show ?thesis
        using True by (simp add: process_try_any_def process_try_def v b l)
    next
      case (Inr idxs)
      then show ?thesis
        using True
        by (simp add: process_try_any_def process_try_def v b l loop Let_def m bump snap
            result_as_any_def)
    qed
  qed
qed

lemma process_any_agrees:
  "process_any (processor_as_any self) (Value d)
     = (case process self d of (self', r) \<Rightarrow> (processor_as_any self', Inr (result_as_any r)))"
proof (cases "process_try self d")
  case (Pair self' outcome)
  show ?thesis
  proof (cases outcome)
    case (Inl e)
    have "is_Exception e"
      using Pair Inl
      by (auto simp: process_try_def Let_def split: if_splits sum.splits dest: py_range_raises)
    then show ?thesis
      using Pair Inl process_try_any_agrees [of self d]
      by (simp add: process_any_def process_def processor_as_any_def result_as_any_def)
  next
    case (Inr r)
    then show ?thesis
      using Pair process_try_any_agrees [of self d]
      by (simp add: process_any_def process_def)
  qed
qed

section \<open>The claims\<close>

text \<open>
  Claim C1. For every non-empty list \<open>S\<close> of numbers (integers, booleans and floats) and
  every processor whose batch size is positive (the configuration the specification
  describes), \<open>process(S)\<close> succeeds and its data is
  \<open>[x*6+67 for x in S if x*6+67 > 99]\<close>: every element goes through \<open>y = x*6 + 67\<close>, computed
  in the arithmetic of its type, exactly the values strictly above 99 are kept, in their
  original order.
\<close>

theorem process_numbers:
  assumes "xs \<noteq> []" and "0 < batch_size (config self)"
  shows "success (snd (process self (PList (map number_value xs))))
       \<and> data (snd (process self (PList (map number_value xs))))
           = PList (map number_value
               [times6_plus67 x. x \<leftarrow> xs, number_gt (times6_plus67 x) 99])"
proof -
  have "validate self (PList (map number_value xs))"
    using assms(1) by (simp add: validate_def py_len_def)
  then show ?thesis
    using process_valid_positive [of self "PList (map number_value xs)"] assms(2)
    by (simp add: process_batch_numbers)
qed

theorem process_numbers_witness:
  "[NInt 1, NFloat (Finite (11 / 2)), NInt 6, NBool True,
    NFloat (Finite (6004799503160661 / 1125899906842624)), NFloat NaN, NFloat PosInf, NInt 5,
    NInt 10] \<noteq> []
   \<and> 0 < batch_size (config (init (Some \<lparr>batch_size = 2, timeout = 3024, retry_count = 3,
                                         enable_caching = True\<rparr>)))
   \<and> success (snd (process (init (Some \<lparr>batch_size = 2, timeout = 3024, retry_count = 3,
                                         enable_caching = True\<rparr>))
        (PList (map number_value
           [NInt 1, NFloat (Finite (11 / 2)), NInt 6, NBool True,
            NFloat (Finite (6004799503160661 / 1125899906842624)), NFloat NaN, NFloat PosInf,
            NInt 5, NInt 10]))))
   \<and> data (snd (process (init (Some \<lparr>batch_size = 2, timeout = 3024, retry_count = 3,
                                         enable_caching = True\<rparr>))
        (PList (map number_value
           [NInt 1, NFloat (Finite (11 / 2)), NInt 6, NBool True,
            NFloat (Finite (6004799503160661 / 1125899906842624)), NFloat NaN, NFloat PosInf,
            NInt 5, NInt 10]))))
       = PList [PFloat (Finite 100), PInt 103, PFloat PosInf, PInt 127]
   \<and> round_double (11 / 2) = Finite (11 / 2)
   \<and> round_double (16 / 3) = Finite (6004799503160661 / 1125899906842624)"
  using process_numbers
    [of "[NInt 1, NFloat (Finite (11 / 2)), NInt 6, NBool True,
          NFloat (Finite (6004799503160661 / 1125899906842624)), NFloat NaN, NFloat PosInf,
          NInt 5, NInt 10]"
        "init (Some \<lparr>batch_size = 2, timeout = 3024, retry_count = 3, enable_caching = True\<rparr>)"]
  by (simp add: init_def round_double_examples)

text \<open>
  Claim C2. For every invalid input (\<open>None\<close>, an empty list or tuple, or a value that is
  neither a list nor a tuple), \<open>process\<close> returns the result with \<open>success = False\<close>,
  \<open>error = "Validation failed"\<close> and \<open>data = None\<close>, and leaves the processor, hence both
  counters, as it was. This holds for every configuration.
\<close>

theorem process_invalid:
  assumes "d = PNone \<or> \<not> isinstance_list_tuple d \<or> d = PList [] \<or> d = PTuple []"
  shows "process self d =
           (self, \<lparr>success = False, data = PNone, error = Some ''Validation failed'',
                   result_metrics = None\<rparr>)"
  using assms by (auto simp: process_def process_try_def validate_def py_len_def)

theorem process_invalid_witness:
  "(PNone = PNone \<or> \<not> isinstance_list_tuple PNone \<or> PNone = PList [] \<or> PNone = PTuple [])
   \<and> process (init None) PNone =
        (init None, \<lparr>success = False, data = PNone, error = Some ''Validation failed'',
                     result_metrics = None\<rparr>)
   \<and> process (init None) (PList []) =
        (init None, \<lparr>success = False, data = PNone, error = Some ''Validation failed'',
                     result_metrics = None\<rparr>)
   \<and> \<not> isinstance_list_tuple (PDict [(PStr ''a'', PInt 1)])
   \<and> process (init None) (PDict [(PStr ''a'', PInt 1)]) =
        (init None, \<lparr>success = False, data = PNone, error = Some ''Validation failed'',
                     result_metrics = None\<rparr>)"
  using process_invalid [of PNone "init None"] process_invalid [of "PList []" "init None"]
    process_invalid [of "PDict [(PStr ''a'', PInt 1)]" "init None"]
  by simp

text \<open>
  Claim C3. For every valid input and any two positive batch sizes, a processor configured
  with the one and a processor configured with the other return the same data: cutting the
  input into batches does not show in the output.
\<close>

theorem batch_size_irrelevant:
  assumes "0 < batch_size (config p1)" and "0 < batch_size (config p2)" and "validate p1 d"
  shows "data (snd (process p1 d)) = data (snd (process p2 d))"
proof -
  have v2: "validate p2 d" using assms(3) by (simp add: validate_def)
  have k: "kept p1 = kept p2"
    by (simp add: fun_eq_iff kept_def validate_result_def)
  have t: "transformed p1 = transformed p2"
    by (simp add: fun_eq_iff transformed_def apply_transformation_def)
  have "process_batch p1 (items d) = process_batch p2 (items d)"
    by (simp only: process_batch_filter k t)
  then show ?thesis
    using process_valid_positive [of p1 d] process_valid_positive [of p2 d] assms(1,2,3) v2
    by simp
qed

theorem batch_size_irrelevant_witness:
  "0 < batch_size (config (init (Some \<lparr>batch_size = 2, timeout = 0, retry_count = 0,
                                         enable_caching = False\<rparr>)))
   \<and> 0 < batch_size (config (init None))
   \<and> validate (init (Some \<lparr>batch_size = 2, timeout = 0, retry_count = 0,
                            enable_caching = False\<rparr>))
        (PList [PInt 1, PInt 10, PNone, PInt 20, PInt 7])
   \<and> data (snd (process (init (Some \<lparr>batch_size = 2, timeout = 0, retry_count = 0,
                                      enable_caching = False\<rparr>))
                   (PList [PInt 1, PInt 10, PNone, PInt 20, PInt 7])))
       = data (snd (process (init None) (PList [PInt 1, PInt 10, PNone, PInt 20, PInt 7])))"
  using batch_size_irrelevant
    [of "init (Some \<lparr>batch_size = 2, timeout = 0, retry_count = 0, enable_caching = False\<rparr>)"
        "init None" "PList [PInt 1, PInt 10, PNone, PInt 20, PInt 7]"]
  by (simp add: init_def get_default_config_def validate_def py_len_def)

text \<open>
  Claim C4. Along every sequence of \<open>process\<close> calls on one instance, from any state of it,
  neither counter decreases; and on a fresh instance, after calls that all succeed, the
  processed counter is the sum of the numbers of results the calls returned.
\<close>

theorem counters_monotone:
  "processed (metrics self) \<le> processed (metrics (fst (run self ds)))
   \<and> failed (metrics self) \<le> failed (metrics (fst (run self ds)))
   \<and> ((\<forall>r \<in> set (snd (run (init cfg) ds)). success r) \<longrightarrow>
        processed (metrics (fst (run (init cfg) ds)))
          = sum_list (map (\<lambda>r. int (length (items (data r)))) (snd (run (init cfg) ds))))"
proof -
  have nonneg: "0 \<le> sum_list (map (\<lambda>r. py_len (data r)) rs)" for rs
    by (induction rs) (simp_all add: py_len_nonneg)
  have a: "processed (metrics self) \<le> processed (metrics (fst (run self ds)))"
    using run_processed [of self ds] nonneg [of "snd (run self ds)"] by simp
  have b: "failed (metrics self) \<le> failed (metrics (fst (run self ds)))"
    by (rule run_failed)
  have c: "processed (metrics (fst (run (init cfg) ds)))
          = sum_list (map (\<lambda>r. int (length (items (data r)))) (snd (run (init cfg) ds)))"
    using run_processed [of "init cfg" ds] by (simp add: init_def py_len_def)
  show ?thesis using a b c by simp
qed

theorem counters_monotone_witness:
  "map success (snd (run (init None) [PList [PInt 10, PInt 1], PTuple [PInt 6, PInt 7]]))
     = [True, True]
   \<and> processed (metrics (init None)) = 0
   \<and> processed (metrics (fst (run (init None) [PList [PInt 10, PInt 1], PTuple [PInt 6, PInt 7]]))) = 3
   \<and> failed (metrics (fst (run (init None) [PList [PInt 10, PInt 1], PTuple [PInt 6, PInt 7]]))) = 0
   \<and> map (\<lambda>r. int (length (items (data r))))
        (snd (run (init None) [PList [PInt 10, PInt 1], PTuple [PInt 6, PInt 7]])) = [1, 2]"
  using counters_monotone [of "init None" "[PList [PInt 10, PInt 1], PTuple [PInt 6, PInt 7]]" None]
  by (simp add: run_eval)




text \<open>
  Claim C6, as stated: \<open>validate\<close> returns true iff the input is not null, is of an ordered
  finite sequence type and has length at least 1. The string \<open>"abc"\<close> is all three, and
  \<open>validate\<close> returns \<open>False\<close> for it: the method accepts lists and tuples only.
\<close>

theorem validate_sequence_counterexample:
  "validate_as_specified (PStr ''abc'') \<and> \<not> validate (init None) (PStr ''abc'')"
  by (simp add: validate_as_specified_def validate_def)

text \<open>
  Claim C6, amended. \<open>validate\<close> returns \<open>True\<close> exactly for the non-empty lists and the
  non-empty tuples; so \<open>validate(None)\<close>, \<open>validate([])\<close> and \<open>validate("abc")\<close> are \<open>False\<close>
  and \<open>validate([1,2,3])\<close> is \<open>True\<close>. The answer depends on the argument alone, not on the
  processor it is asked of, so that calling again gives the same answer.
\<close>

theorem validate_list_or_tuple:
  "validate self d = (\<exists>xs. xs \<noteq> [] \<and> (d = PList xs \<or> d = PTuple xs))
   \<and> validate self d = validate other d
   \<and> validate self PNone = False
   \<and> validate self (PList []) = False
   \<and> validate self (PList [PInt 1, PInt 2, PInt 3]) = True
   \<and> validate self (PStr ''abc'') = False"
  by (cases d) (simp_all add: validate_def py_len_def)



text \<open>
  Claim C8. The example run: a processor from the factory, with the default configuration,
  on \<open>list(range(100))\<close> returns a successful result whose data are the 94 values
  \<open>x*6+67\<close> for \<open>x\<close> from 6 to 99, the first 103 and the last 661, and whose metrics
  snapshot has \<open>total_processed = 94\<close>.
\<close>

theorem main_scenario:
  "\<exists>r. main_result = Inr r
     \<and> success r
     \<and> data r = PList (map PInt (map (\<lambda>x. x * 6 + 67) [6..99]))
     \<and> length (items (data r)) = 94
     \<and> hd (items (data r)) = PInt 103
     \<and> last (items (data r)) = PInt 661
     \<and> map_option total_processed (result_metrics r) = Some 94"
proof -
  have v: "validate (init None) (PList (map PInt [0..99]))"
    by (simp add: validate_def py_len_def)
  have b: "0 < batch_size (config (init None))"
    by (simp add: init_def get_default_config_def)
  have pb: "process_batch (init None) (items (PList (map PInt [0..99])))
              = map PInt (map (\<lambda>x. x * 6 + 67) [6..99])"
    by (simp only: items.simps process_batch_ints kept_of_0_to_99)
  have len: "length (map PInt (map (\<lambda>x. x * 6 + 67) [6..(99::int)])) = 94"
    by simp
  have h: "hd (map PInt (map (\<lambda>x. x * 6 + 67) [6..(99::int)])) = PInt 103"
    by (simp add: upto_rec1 [of 6 99])
  have l: "last (map PInt (map (\<lambda>x. x * 6 + 67) [6..(99::int)])) = PInt 661"
    by (simp add: upto_rec2 [of 6 99])
  have m: "main_result = Inr (snd (process (init None) (PList (map PInt [0..99]))))"
    by (simp add: main_result_def create_processor_def py_range_def range_up_unit
        del: range_up.simps)
  show ?thesis
    unfolding m process_valid_positive [OF b v] pb
    using len h l
    by (simp add: get_metrics_def init_def)
qed

text \<open>
  Claim C9. With \<open>batch_size = 0\<close>, every valid input makes \<open>range\<close> raise its
  zero-step \<open>ValueError\<close>: \<open>process\<close> returns the result with \<open>success = False\<close>,
  \<open>data = None\<close> and that exception's message as \<open>error\<close>, and adds 1 to the failed
  counter.
\<close>

theorem zero_batch_size_fails:
  assumes "batch_size (config self) = 0" and "validate self d"
  shows "process self d =
           (self\<lparr>metrics := (metrics self)\<lparr>failed := failed (metrics self) + 1\<rparr>\<rparr>,
            \<lparr>success = False, data = PNone,
             error = Some (exc_str (ValueError ''range() arg 3 must not be zero'')),
             result_metrics = None\<rparr>)"
  using assms by (simp add: process_def process_try_def py_range_def)

theorem zero_batch_size_fails_witness:
  "batch_size (config (init (Some \<lparr>batch_size = 0, timeout = 5, retry_count = 0,
                                     enable_caching = False\<rparr>))) = 0
   \<and> validate (init (Some \<lparr>batch_size = 0, timeout = 5, retry_count = 0, enable_caching = False\<rparr>))
        (PList [PInt 100, PInt 200])
   \<and> process (init (Some \<lparr>batch_size = 0, timeout = 5, retry_count = 0, enable_caching = False\<rparr>))
        (PList [PInt 100, PInt 200])
     = (\<lparr>config = \<lparr>batch_size = 0, timeout = 5, retry_count = 0, enable_caching = False\<rparr>,
         metrics = \<lparr>processed = 0, failed = 1, performance = []\<rparr>\<rparr>,
        \<lparr>success = False, data = PNone, error = Some ''range() arg 3 must not be zero'',
         result_metrics = None\<rparr>)"
  using zero_batch_size_fails
    [of "init (Some \<lparr>batch_size = 0, timeout = 5, retry_count = 0, enable_caching = False\<rparr>)"
        "PList [PInt 100, PInt 200]"]
  by (simp add: init_def validate_def py_len_def)

text \<open>
  Claim C10. With a negative \<open>batch_size\<close>, every valid input gives a loop of zero
  iterations: \<open>process\<close> returns \<open>success = True\<close> with the empty list as data and no error,
  the processed counter grows by 0 and the failed counter stays.
\<close>

theorem negative_batch_size_empty:
  assumes "batch_size (config self) < 0" and "validate self d"
  shows "success (snd (process self d))
       \<and> data (snd (process self d)) = PList []
       \<and> error (snd (process self d)) = None
       \<and> processed (metrics (fst (process self d))) = processed (metrics self) + 0
       \<and> failed (metrics (fst (process self d))) = failed (metrics self)"
proof -
  have "0 < py_len d" using assms(2) by (simp add: validate_def py_len_def split: if_splits)
  then have "range_down 0 (py_len d) (batch_size (config self)) = []" by simp
  then show ?thesis
    using assms by (simp add: process_def process_try_def py_range_def Let_def
        del: range_down.simps)
qed

theorem negative_batch_size_empty_witness:
  "batch_size (config (init (Some \<lparr>batch_size = - 3, timeout = 5, retry_count = 0,
                                     enable_caching = False\<rparr>))) < 0
   \<and> validate (init (Some \<lparr>batch_size = - 3, timeout = 5, retry_count = 0, enable_caching = False\<rparr>))
        (PList [PInt 100, PInt 200])
   \<and> snd (process (init (Some \<lparr>batch_size = - 3, timeout = 5, retry_count = 0,
                                enable_caching = False\<rparr>))
        (PList [PInt 100, PInt 200]))
     = \<lparr>success = True, data = PList [], error = None,
        result_metrics = Some \<lparr>total_processed = 0, total_failed = 0, success_rate = Finite 0,
          snapshot_config = \<lparr>batch_size = - 3, timeout = 5, retry_count = 0,
                               enable_caching = False\<rparr>\<rparr>\<rparr>
   \<and> metrics (fst (process (init (Some \<lparr>batch_size = - 3, timeout = 5, retry_count = 0,
                                        enable_caching = False\<rparr>))
        (PList [PInt 100, PInt 200])))
     = \<lparr>processed = 0, failed = 0, performance = []\<rparr>"
  using negative_batch_size_empty
    [of "init (Some \<lparr>batch_size = - 3, timeout = 5, retry_count = 0, enable_caching = False\<rparr>)"
        "PList [PInt 100, PInt 200]"]
  by (simp add: run_eval py_truediv_def round_double_def)

end
